theory Spec2Isabelle
  imports Main "HOL-Library.AList"
begin

section \<open>The syntax tree read by help\_gen.py\<close>

text \<open>
  \<^verbatim>\<open>HelpFileGen\<close> works on the tree that \<^verbatim>\<open>ast.parse\<close> returns. The model keeps the
  attributes the program reads. Expression nodes (defaults, annotations, decorators, base
  classes) are only ever handed to \<^verbatim>\<open>ast.dump\<close> and \<^verbatim>\<open>ast.unparse\<close>, so their type is
  the parameter \<open>'e\<close>.

  \<^item> \<open>ast_arg\<close> is \<^verbatim>\<open>ast.arg\<close>: the parameter name and its optional annotation.
  \<^item> \<open>arguments\<close> is \<^verbatim>\<open>ast.arguments\<close>: its seven fields. The program reads six of them
    and never \<^verbatim>\<open>posonlyargs\<close>, where the parser puts the parameters before a \<^verbatim>\<open>/\<close>; the
    list \<^verbatim>\<open>defaults\<close> holds the defaults of the last parameters of \<^verbatim>\<open>posonlyargs\<close>
    followed by \<^verbatim>\<open>args\<close>.
  \<^item> \<open>node\<close>: \<^verbatim>\<open>ast.FunctionDef\<close> and \<^verbatim>\<open>ast.ClassDef\<close> with name, body and
    decorator list, and the value \<^verbatim>\<open>ast.get_docstring(node)\<close> returns for them; every other
    kind of node is \<open>Other\<close>, with the text \<^verbatim>\<open>ast.dump(node)\<close> gives and its child nodes
    in the order of \<^verbatim>\<open>ast.iter_child_nodes\<close>.
\<close>

record 'e ast_arg =
  arg :: string
  annotation :: "'e option"

record 'e arguments =
  posonlyargs :: "'e ast_arg list"
  args :: "'e ast_arg list"
  vararg :: "'e ast_arg option"
  kwonlyargs :: "'e ast_arg list"
  kw_defaults :: "'e option list"
  kwarg :: "'e ast_arg option"
  defaults :: "'e list"

datatype 'e node =
    FunctionDef string "'e arguments" "'e node list" "'e list" "string option"
  | ClassDef string "'e list" "'e node list" "'e list" "string option"
  | Other string "'e node list"

text \<open>
  The functions of Python's library that the program calls are parameters of the model:
  \<^verbatim>\<open>hashlib.sha256(s.encode('utf-8')).hexdigest()\<close>, \<^verbatim>\<open>ast.dump\<close>, \<^verbatim>\<open>ast.unparse\<close>
  (the program takes the branch \<^verbatim>\<open>hasattr(ast, 'unparse')\<close>, Python 3.9 and later, where
  \<^verbatim>\<open>ast.unparse\<close> returns for every parsed expression), and the text an f-string
  writes for a list of \<^verbatim>\<open>str\<close>.
\<close>

record 'e pylib =
  sha256_hexdigest :: "string \<Rightarrow> string"
  ast_dump :: "'e \<Rightarrow> string"
  ast_unparse :: "'e \<Rightarrow> string"
  format_str_list :: "string list \<Rightarrow> string"

text \<open>A \<^verbatim>\<open>dict\<close> from \<^verbatim>\<open>str\<close> to \<^verbatim>\<open>str\<close>, in insertion order.\<close>

type_synonym dict = "(string \<times> string) list"

section \<open>Strings\<close>

text \<open>\<^verbatim>\<open>sep.join(xs)\<close>.\<close>

fun join :: "string \<Rightarrow> string list \<Rightarrow> string" where
  "join sep [] = []"
| "join sep [x] = x"
| "join sep (x # y # ys) = x @ sep @ join sep (y # ys)"

text \<open>\<^verbatim>\<open>s.lower()\<close>, \<^verbatim>\<open>s.strip()\<close> and \<^verbatim>\<open>s.split(c, 1)\<close> on ASCII text.\<close>

definition lower_char :: "char \<Rightarrow> char" where
  "lower_char c =
     (case map_of (zip ''ABCDEFGHIJKLMNOPQRSTUVWXYZ'' ''abcdefghijklmnopqrstuvwxyz'') c of
        None \<Rightarrow> c
      | Some l \<Rightarrow> l)"

definition lower :: "string \<Rightarrow> string" where
  "lower s = map lower_char s"

definition is_space :: "char \<Rightarrow> bool" where
  "is_space c =
     (c \<in> set [CHR 0x09, CHR 0x0A, CHR 0x0B, CHR 0x0C, CHR 0x0D,
                CHR 0x1C, CHR 0x1D, CHR 0x1E, CHR 0x1F, CHR 0x20])"

definition strip :: "string \<Rightarrow> string" where
  "strip s = rev (dropWhile is_space (rev (dropWhile is_space s)))"

text \<open>
  \<^verbatim>\<open>s.split(c, 1)\<close> is a list of one or two parts; the model returns the first part
  and, when \<open>c\<close> occurs, the rest after its first occurrence.
\<close>

definition split1 :: "char \<Rightarrow> string \<Rightarrow> string \<times> string option" where
  "split1 c s =
     (case dropWhile (\<lambda>x. x \<noteq> c) s of
        [] \<Rightarrow> (s, None)
      | _ # rest \<Rightarrow> (takeWhile (\<lambda>x. x \<noteq> c) s, Some rest))"

section \<open>Signature and checksum\<close>

text \<open>
  \<^verbatim>\<open>_get_function_signature\<close> reads \<^verbatim>\<open>node.args\<close> only, so the model takes the
  \<open>arguments\<close> record.
\<close>

definition get_function_signature :: "'e pylib \<Rightarrow> 'e arguments \<Rightarrow> string" where
  "get_function_signature lib a =
     (let args_l = map arg (args a);
          vararg_s = (case vararg a of Some v \<Rightarrow> ''*'' @ arg v | None \<Rightarrow> '''');
          kwonlyargs_l = map arg (kwonlyargs a);
          kwarg_s = (case kwarg a of Some k \<Rightarrow> ''**'' @ arg k | None \<Rightarrow> '''');
          defaults_l = map (ast_dump lib) (defaults a);
          kw_defaults_l = map (ast_dump lib) (List.map_filter (\<lambda>d. d) (kw_defaults a));
          sig_parts =
            (if args_l \<noteq> [] then [join '', '' args_l] else []) @
            (if vararg_s \<noteq> [] then [vararg_s] else []) @
            (if kwonlyargs_l \<noteq> [] then [''*'', join '', '' kwonlyargs_l] else []) @
            (if kwarg_s \<noteq> [] then [kwarg_s] else []);
          signature = ''('' @ join '', '' sig_parts @ '')''
      in signature @
         (if defaults_l \<noteq> [] then '' defaults='' @ format_str_list lib defaults_l else '''') @
         (if kw_defaults_l \<noteq> [] then '' kw_defaults='' @ format_str_list lib kw_defaults_l
          else ''''))"

text \<open>\<^verbatim>\<open>ast.get_docstring(node) or ''\<close>.\<close>

definition docstring_or_empty :: "string option \<Rightarrow> string" where
  "docstring_or_empty doc = (case doc of None \<Rightarrow> '''' | Some d \<Rightarrow> d)"

text \<open>The text a class's checksum adds for one item of its body.\<close>

fun method_content :: "'e pylib \<Rightarrow> 'e node \<Rightarrow> string" where
  "method_content lib (FunctionDef name a body decs doc) =
     ''|'' @ name @ '':'' @ get_function_signature lib a @ '':'' @ docstring_or_empty doc"
| "method_content lib (ClassDef name bases body decs doc) = ''''"
| "method_content lib (Other d children) = ''''"

fun calculate_node_checksum :: "'e pylib \<Rightarrow> 'e node \<Rightarrow> string" where
  "calculate_node_checksum lib (ClassDef name bases body decs doc) =
     sha256_hexdigest lib
       (''ClassDef:'' @ name @ '':'' @ docstring_or_empty doc @ '':'' @
        ''bases:'' @ join '','' (map (ast_dump lib) bases) @ '':'' @
        ''decorators:'' @ join '','' (map (ast_dump lib) decs) @ '':'' @
        concat (map (method_content lib) body))"
| "calculate_node_checksum lib (FunctionDef name a body decs doc) =
     sha256_hexdigest lib
       (''FunctionDef:'' @ name @ '':'' @ docstring_or_empty doc @ '':'' @
        ''decorators:'' @ join '','' (map (ast_dump lib) decs) @ '':'' @
        ''signature:'' @ get_function_signature lib a)"
| "calculate_node_checksum lib (Other d children) = sha256_hexdigest lib d"

section \<open>First pass: the checksum of every class and function\<close>

text \<open>
  \<^verbatim>\<open>ast.walk\<close> is a breadth-first traversal: it takes the first node of a queue, appends
  the node's children to the queue and yields the node. Only statements can hold a class
  or a function, so the queue of the model holds the nodes that can.
\<close>

fun iter_child_nodes :: "'e node \<Rightarrow> 'e node list" where
  "iter_child_nodes (FunctionDef name a body decs doc) = body"
| "iter_child_nodes (ClassDef name bases body decs doc) = body"
| "iter_child_nodes (Other d children) = children"

function walk :: "'e node list \<Rightarrow> 'e node list" where
  "walk [] = []"
| "walk (n # todo) = n # walk (todo @ iter_child_nodes n)"
  by pat_completeness auto
termination
  apply (relation "measure (\<lambda>q. sum_list (map size q))")
   apply simp
  subgoal for n todo by (cases n) (auto simp: size_list_conv_sum_list)
  done

text \<open>
  The key of a node in the checksum dictionary:
  \<^verbatim>\<open>f"{node.name}" if isinstance(node, ast.FunctionDef) else f"class_{node.name}"\<close>,
  for the nodes that pass \<^verbatim>\<open>isinstance(node, (ast.ClassDef, ast.FunctionDef))\<close>.
\<close>

fun node_name :: "'e node \<Rightarrow> string option" where
  "node_name (FunctionDef name a body decs doc) = Some name"
| "node_name (ClassDef name bases body decs doc) = Some (''class_'' @ name)"
| "node_name (Other d children) = None"

definition record_checksum :: "'e pylib \<Rightarrow> 'e node \<Rightarrow> dict \<Rightarrow> dict" where
  "record_checksum lib n current_checksums =
     (case node_name n of
        None \<Rightarrow> current_checksums
      | Some k \<Rightarrow> AList.update k (calculate_node_checksum lib n) current_checksums)"

text \<open>
  The module is given by \<^verbatim>\<open>tree.body\<close>: the walk starts at the \<^verbatim>\<open>Module\<close> node, which
  is neither a class nor a function, and goes on with its body.
\<close>

definition collect_checksums :: "'e pylib \<Rightarrow> 'e node list \<Rightarrow> dict" where
  "collect_checksums lib tree_body = fold (record_checksum lib) (walk tree_body) []"

section \<open>Change detection\<close>

text \<open>
  The loop \<^verbatim>\<open>for node_name, checksum in current_checksums.items()\<close> with its
  \<^verbatim>\<open>break\<close>, and the comparison of the key sets before it.
\<close>

fun hash_mismatch :: "dict \<Rightarrow> dict \<Rightarrow> bool" where
  "hash_mismatch [] previous_checksums = False"
| "hash_mismatch ((k, checksum) # items) previous_checksums =
     (if map_of previous_checksums k \<noteq> Some checksum then True
      else hash_mismatch items previous_checksums)"

definition needs_update :: "dict \<Rightarrow> dict \<Rightarrow> bool" where
  "needs_update current_checksums previous_checksums =
     (if set (map fst current_checksums) \<noteq> set (map fst previous_checksums) then True
      else hash_mismatch current_checksums previous_checksums)"

section \<open>Argument details and usage examples\<close>

definition get_type_annotation :: "'e pylib \<Rightarrow> 'e option \<Rightarrow> string" where
  "get_type_annotation lib annotation_node =
     (case annotation_node of None \<Rightarrow> ''Any'' | Some a \<Rightarrow> ast_unparse lib a)"

definition unparse_or_format :: "'e pylib \<Rightarrow> 'e option \<Rightarrow> string" where
  "unparse_or_format lib node = (case node of None \<Rightarrow> ''None'' | Some d \<Rightarrow> ast_unparse lib d)"

definition format_arg_line :: "string \<Rightarrow> string \<Rightarrow> string option \<Rightarrow> string" where
  "format_arg_line name type_str default_text =
     (case default_text of
        Some d \<Rightarrow> name @ '': '' @ type_str @ '' = '' @ d
      | None \<Rightarrow> name @ '': '' @ type_str)"

text \<open>
  The default of the positional argument at index \<open>i\<close>:
  \<^verbatim>\<open>if node.args.defaults and i >= (len(node.args.args) - len(node.args.defaults))\<close>,
  then \<^verbatim>\<open>node.args.defaults[i - (len(node.args.args) - len(node.args.defaults))]\<close>.
  The difference of the lengths is a Python integer and may be negative.
\<close>

definition positional_default :: "'e pylib \<Rightarrow> 'e arguments \<Rightarrow> nat \<Rightarrow> string option" where
  "positional_default lib a i =
     (let first_default = int (length (args a)) - int (length (defaults a)) in
      if defaults a \<noteq> [] \<and> int i \<ge> first_default
      then Some (unparse_or_format lib (Some (defaults a ! nat (int i - first_default))))
      else None)"

text \<open>
  The default of the keyword-only argument at index \<open>i\<close>:
  \<^verbatim>\<open>if i < len(node.args.kw_defaults) and node.args.kw_defaults[i] is not None\<close>.
\<close>

definition keyword_default :: "'e pylib \<Rightarrow> 'e arguments \<Rightarrow> nat \<Rightarrow> string option" where
  "keyword_default lib a i =
     (if i < length (kw_defaults a) then
        (case kw_defaults a ! i of
           Some d \<Rightarrow> Some (unparse_or_format lib (Some d))
         | None \<Rightarrow> None)
      else None)"

definition get_argument_details :: "'e pylib \<Rightarrow> 'e arguments \<Rightarrow> string list" where
  "get_argument_details lib a =
     map (\<lambda>(i, x). format_arg_line (arg x) (get_type_annotation lib (annotation x))
                     (positional_default lib a i))
       (enumerate 0 (args a)) @
     map (\<lambda>(i, x). format_arg_line (arg x) (get_type_annotation lib (annotation x))
                     (keyword_default lib a i))
       (enumerate 0 (kwonlyargs a))"

text \<open>
  One turn of the loop of \<^verbatim>\<open>generate_usage_code\<close> that fills \<^verbatim>\<open>cleaned_args\<close>:
  \<open>None\<close> is the \<^verbatim>\<open>continue\<close>, \<open>Some p\<close> the appended text.
\<close>

definition clean_arg :: "string \<Rightarrow> string option" where
  "clean_arg a =
     (let parts = split1 CHR '':'' a;
          param_part = strip (fst parts)
      in if param_part = ''self'' then None
         else (case snd parts of
                 Some rest \<Rightarrow>
                   (case snd (split1 CHR ''='' rest) of
                      Some default_text \<Rightarrow> Some (param_part @ ''='' @ strip default_text)
                    | None \<Rightarrow> Some param_part)
               | None \<Rightarrow> Some param_part))"

definition cleaned_args :: "string list \<Rightarrow> string list" where
  "cleaned_args usage_args = List.map_filter clean_arg usage_args"

definition call_prefix :: "string \<Rightarrow> string \<Rightarrow> string" where
  "call_prefix class_name name =
     (let class_obj = ''self.'' @ lower class_name @ ''_obj''
      in if name = ''__init__'' then class_obj @ ''('' else class_obj @ ''.'' @ name @ ''('')"

definition generate_usage_code :: "string \<Rightarrow> string \<Rightarrow> string list \<Rightarrow> string" where
  "generate_usage_code class_name name usage_args =
     (let class_obj = ''self.'' @ lower class_name @ ''_obj'';
          usage_string = class_obj @ '' = '' @ class_name @ ''\<newline>\<newline>'';
          cleaned = cleaned_args usage_args
      in if cleaned = [] then usage_string @ call_prefix class_name name @ '')''
         else if length cleaned = 1
           then usage_string @ call_prefix class_name name @ hd cleaned @ '')''
         else usage_string @ call_prefix class_name name @ ''\<newline>'' @
              join '',\<newline>'' (map (\<lambda>a. ''    '' @ a) cleaned) @ ''\<newline>)'')"

section \<open>Second pass: the document\<close>

text \<open>
  The attributes of \<^verbatim>\<open>HelpFileGen\<close> that the content generation reads.
  \<open>exclusion_list\<close> is the list \<^verbatim>\<open>_load_exclusion_list\<close> has loaded.
\<close>

record config =
  module_path :: string
  output_file :: string
  overwrite :: bool
  args_seperatly :: bool
  exclusion_list :: "string list"

text \<open>
  Reading \<^verbatim>\<open>class_name\<close> in the branch of a top-level function, before any class has
  assigned it, raises \<^verbatim>\<open>UnboundLocalError\<close>; the error carries the variable's name.
\<close>

datatype error = UnboundLocalError string

definition extract_help_from_docstring :: "string option \<Rightarrow> string option" where
  "extract_help_from_docstring docstring =
     (case docstring of
        None \<Rightarrow> None
      | Some d \<Rightarrow> if d = [] then None else Some (strip d))"

text \<open>\<^verbatim>\<open>if help_text: ... else: ...\<close> with the heading of the given level.\<close>

definition help_section :: "string \<Rightarrow> string option \<Rightarrow> string" where
  "help_section heading docstring =
     (case extract_help_from_docstring docstring of
        Some help_text \<Rightarrow>
          (if help_text \<noteq> [] then ''\<newline>'' @ heading @ '' Help:\<newline>> '' @ help_text @ ''\<newline>''
           else ''\<newline>'' @ heading @ '' Help:\<newline>> No help provided.\<newline>'')
      | None \<Rightarrow> ''\<newline>'' @ heading @ '' Help:\<newline>> No help provided.\<newline>'')"

definition arguments_section :: "'e pylib \<Rightarrow> config \<Rightarrow> string \<Rightarrow> 'e arguments \<Rightarrow> string" where
  "arguments_section lib cfg heading a =
     (if args_seperatly cfg
      then heading @ '' Arguments:\<newline>'' @
           join ''\<newline>'' (map (\<lambda>x. ''- '' @ x) (get_argument_details lib a))
      else '''')"

definition method_anchor :: "string \<Rightarrow> string \<Rightarrow> string" where
  "method_anchor class_name child_name = ''method-'' @ lower class_name @ ''-'' @ lower child_name"

text \<open>The first loop over a class body: the quick links.\<close>

fun method_links :: "config \<Rightarrow> string \<Rightarrow> 'e node list \<Rightarrow> string list" where
  "method_links cfg class_name [] = []"
| "method_links cfg class_name (FunctionDef name a body decs doc # rest) =
     (if name \<notin> set (exclusion_list cfg)
      then (''[`'' @ name @ ''`](#'' @ method_anchor class_name name @ '')'') #
           method_links cfg class_name rest
      else method_links cfg class_name rest)"
| "method_links cfg class_name (child # rest) = method_links cfg class_name rest"

definition method_entry ::
  "'e pylib \<Rightarrow> config \<Rightarrow> string \<Rightarrow> string \<Rightarrow> 'e arguments \<Rightarrow> string option \<Rightarrow> string" where
  "method_entry lib cfg class_name name a doc =
     ''<a id=\"'' @ method_anchor class_name name @ ''\"></a>\<newline>'' @
     ''### Method: `'' @ name @ ''`\<newline>'' @
     arguments_section lib cfg ''####'' a @
     help_section ''####'' doc @
     ''\<newline>#### Usage:\<newline> ```python\<newline>'' @
     generate_usage_code class_name name (get_argument_details lib a) @ ''\<newline>```\<newline>'' @
     ''\<newline>\<newline>[Back to `'' @ class_name @ ''`](#class-'' @ lower class_name @
     '') or [Classes](#top)\<newline>\<newline>''"

text \<open>The second loop over a class body: one entry per method that is not excluded.\<close>

fun method_entries :: "'e pylib \<Rightarrow> config \<Rightarrow> string \<Rightarrow> 'e node list \<Rightarrow> string list" where
  "method_entries lib cfg class_name [] = []"
| "method_entries lib cfg class_name (FunctionDef name a body decs doc # rest) =
     (if name \<in> set (exclusion_list cfg) then method_entries lib cfg class_name rest
      else method_entry lib cfg class_name name a doc # method_entries lib cfg class_name rest)"
| "method_entries lib cfg class_name (child # rest) = method_entries lib cfg class_name rest"

definition class_content :: "'e pylib \<Rightarrow> config \<Rightarrow> string \<Rightarrow> 'e node list \<Rightarrow> string list" where
  "class_content lib cfg class_name body =
     [''<a id=\"class-'' @ lower class_name @ ''\"></a>\<newline>'',
      ''## Class: `'' @ class_name @ ''`\<newline>''] @
     (if method_links cfg class_name body \<noteq> []
      then [''### Quick Links:\<newline>'', join '' | '' (method_links cfg class_name body), ''\<newline>'']
      else []) @
     method_entries lib cfg class_name body"

definition function_entry ::
  "'e pylib \<Rightarrow> config \<Rightarrow> string \<Rightarrow> string \<Rightarrow> 'e arguments \<Rightarrow> string option \<Rightarrow> string" where
  "function_entry lib cfg class_name name a doc =
     ''<a id=\"func-'' @ lower name @ ''\"></a>\<newline>'' @
     ''## Function: `'' @ name @ ''`\<newline>'' @
     arguments_section lib cfg ''###'' a @
     help_section ''###'' doc @
     ''\<newline>### Usage:\<newline>```python\<newline>'' @
     generate_usage_code class_name name (get_argument_details lib a) @ ''\<newline>```\<newline>'' @
     ''\<newline>[Back to top](#top)\<newline>\<newline>''"

text \<open>
  The loop \<^verbatim>\<open>for node in tree.body\<close> of the second pass. Its state is the local variable
  \<^verbatim>\<open>class_name\<close> (\<open>None\<close> while unbound) and the list \<^verbatim>\<open>help_content\<close>. The dictionary
  \<^verbatim>\<open>class_methods\<close> is written and never read, and is left out.
\<close>

fun render_body ::
  "'e pylib \<Rightarrow> config \<Rightarrow> 'e node list \<Rightarrow> string option \<Rightarrow> string list \<Rightarrow> error + string list"
where
  "render_body lib cfg [] class_name help_content = Inr help_content"
| "render_body lib cfg (ClassDef name bases body decs doc # rest) class_name help_content =
     render_body lib cfg rest (Some name) (help_content @ class_content lib cfg name body)"
| "render_body lib cfg (FunctionDef name a body decs doc # rest) class_name help_content =
     (if name \<in> set (exclusion_list cfg) then render_body lib cfg rest class_name help_content
      else (case class_name of
              None \<Rightarrow> Inl (UnboundLocalError ''class_name'')
            | Some c \<Rightarrow>
                render_body lib cfg rest class_name
                  (help_content @ [function_entry lib cfg c name a doc])))"
| "render_body lib cfg (Other d children # rest) class_name help_content =
     render_body lib cfg rest class_name help_content"

text \<open>
  The links of the table of contents:
  \<^verbatim>\<open>f"[`{node.name}`](#{class_anchor})"\<close> with \<^verbatim>\<open>class_anchor = f"class-{node.name.lower()}"\<close>,
  and the same with \<^verbatim>\<open>func-\<close> for a function.
\<close>

definition class_link :: "string \<Rightarrow> string" where
  "class_link name = ''[`'' @ name @ ''`](#class-'' @ lower name @ '')''"

definition func_link :: "string \<Rightarrow> string" where
  "func_link name = ''[`'' @ name @ ''`](#func-'' @ lower name @ '')''"

text \<open>The two loops that collect them.\<close>

fun class_anchors :: "'e node list \<Rightarrow> string list" where
  "class_anchors [] = []"
| "class_anchors (ClassDef name bases body decs doc # rest) =
     class_link name # class_anchors rest"
| "class_anchors (n # rest) = class_anchors rest"

fun func_anchors :: "config \<Rightarrow> 'e node list \<Rightarrow> string list" where
  "func_anchors cfg [] = []"
| "func_anchors cfg (FunctionDef name a body decs doc # rest) =
     (if name \<notin> set (exclusion_list cfg) then func_link name # func_anchors cfg rest
      else func_anchors cfg rest)"
| "func_anchors cfg (n # rest) = func_anchors cfg rest"

definition table_of_contents :: "config \<Rightarrow> 'e node list \<Rightarrow> string" where
  "table_of_contents cfg tree_body =
     join ''\<newline>''
       ([''<a id=\"top\"></a>\<newline>'', ''## Table of Contents\<newline>''] @
        (if class_anchors tree_body \<noteq> []
         then [''### Classes:\<newline>'', join '' | '' (class_anchors tree_body), ''\<newline>'']
         else []) @
        (if func_anchors cfg tree_body \<noteq> []
         then [''### Functions:\<newline>'', join '' | '' (func_anchors cfg tree_body), ''\<newline>'']
         else []))"

text \<open>\<^verbatim>\<open>if help_content: ... help_content.insert(0, "\n".join(toc))\<close>.\<close>

definition add_table_of_contents :: "config \<Rightarrow> 'e node list \<Rightarrow> string list \<Rightarrow> string list" where
  "add_table_of_contents cfg tree_body help_content =
     (if help_content \<noteq> [] then table_of_contents cfg tree_body # help_content
      else help_content)"

definition second_pass :: "'e pylib \<Rightarrow> config \<Rightarrow> 'e node list \<Rightarrow> error + string" where
  "second_pass lib cfg tree_body =
     (case render_body lib cfg tree_body None [] of
        Inl e \<Rightarrow> Inl e
      | Inr help_content \<Rightarrow>
          Inr (join ''\<newline>\<newline>'' (add_table_of_contents cfg tree_body help_content)))"

section \<open>The run\<close>

text \<open>
  What a run reads and writes outside the process: the checksum file and the help file
  (\<open>None\<close> while the file does not exist) and the lines printed. The checksum file holds
  the dictionary that \<^verbatim>\<open>json.dump\<close> wrote and \<^verbatim>\<open>json.load\<close> reads back.
\<close>

record world =
  checksums_on_disk :: "dict option"
  help_on_disk :: "string option"
  printed :: "string list"

definition load_checksums :: "world \<Rightarrow> dict" where
  "load_checksums w = (case checksums_on_disk w of None \<Rightarrow> [] | Some d \<Rightarrow> d)"

definition save_checksums :: "dict \<Rightarrow> world \<Rightarrow> world" where
  "save_checksums checksums w = w\<lparr>checksums_on_disk := Some checksums\<rparr>"

definition print :: "string \<Rightarrow> world \<Rightarrow> world" where
  "print line w = w\<lparr>printed := printed w @ [line]\<rparr>"

definition no_changes_line :: "config \<Rightarrow> string" where
  "no_changes_line cfg =
     ''No changes detected in module '' @ module_path cfg @ '', help file is up to date.''"

text \<open>
  \<^verbatim>\<open>_generate_help_content\<close> on a module that \<^verbatim>\<open>ast.parse\<close> has parsed into
  \<open>tree_body\<close>. An exception leaves the function at once: nothing after it is executed.
\<close>

definition generate_help_content ::
  "'e pylib \<Rightarrow> config \<Rightarrow> 'e node list \<Rightarrow> world \<Rightarrow> (error + string) \<times> world" where
  "generate_help_content lib cfg tree_body w =
     (let previous_checksums = load_checksums w;
          current_checksums = collect_checksums lib tree_body;
          needs = needs_update current_checksums previous_checksums
      in if \<not> needs \<and> help_on_disk w \<noteq> None
         then (Inr '''', save_checksums current_checksums (print (no_changes_line cfg) w))
         else (case second_pass lib cfg tree_body of
                 Inl e \<Rightarrow> (Inl e, w)
               | Inr document \<Rightarrow> (Inr document, save_checksums current_checksums w)))"

text \<open>\<^verbatim>\<open>_update_help_file_incrementally\<close> writes the new content in both of its branches.\<close>

definition update_help_file_incrementally :: "string \<Rightarrow> world \<Rightarrow> world" where
  "update_help_file_incrementally new_content w = w\<lparr>help_on_disk := Some new_content\<rparr>"

definition generate_help_file ::
  "'e pylib \<Rightarrow> config \<Rightarrow> 'e node list \<Rightarrow> world \<Rightarrow> error option \<times> world" where
  "generate_help_file lib cfg tree_body w =
     (if overwrite cfg \<or> help_on_disk w = None then
        (case generate_help_content lib cfg tree_body w of
           (Inl e, w') \<Rightarrow> (Some e, w')
         | (Inr help_content, w') \<Rightarrow>
             if help_content \<noteq> []
             then (None, print (''Help file generated/updated: '' @ output_file cfg)
                           (update_help_file_incrementally help_content w'))
             else (None, w'))
      else (None, print (''Help file already exists and overwrite is set to False: '' @
                         output_file cfg) w))"

section \<open>Vocabulary of the properties\<close>

text \<open>The names of the classes and of the functions among a list of nodes, in order.\<close>

fun class_names :: "'e node list \<Rightarrow> string list" where
  "class_names [] = []"
| "class_names (ClassDef name bases body decs doc # rest) = name # class_names rest"
| "class_names (n # rest) = class_names rest"

fun function_names :: "'e node list \<Rightarrow> string list" where
  "function_names [] = []"
| "function_names (FunctionDef name a body decs doc # rest) = name # function_names rest"
| "function_names (n # rest) = function_names rest"








definition kwarg_tokens :: "'e arguments \<Rightarrow> string list" where
  "kwarg_tokens a = (case kwarg a of Some k \<Rightarrow> [''**'' @ arg k] | None \<Rightarrow> [])"












section \<open>Concrete modules\<close>

text \<open>
  A library instance to evaluate the definitions on concrete modules. Expressions are
  names and string constants, dumped and unparsed as Python does; a list of strings is
  written with double quotes, as Python does for strings that hold a single quote. The
  digest is the identity: every theorem below that speaks of a digest holds for all
  libraries.
\<close>

datatype expr = Name string | Constant string

fun dump0 :: "expr \<Rightarrow> string" where
  "dump0 (Name i) = ''Name(id='' @ [CHR 0x27] @ i @ [CHR 0x27] @ '', ctx=Load())''"
| "dump0 (Constant s) = ''Constant(value='' @ [CHR 0x27] @ s @ [CHR 0x27] @ '')''"

fun unparse0 :: "expr \<Rightarrow> string" where
  "unparse0 (Name i) = i"
| "unparse0 (Constant s) = [CHR 0x27] @ s @ [CHR 0x27]"

definition lib0 :: "expr pylib" where
  "lib0 =
     \<lparr>sha256_hexdigest = (\<lambda>s. s), ast_dump = dump0, ast_unparse = unparse0,
      format_str_list = (\<lambda>xs. ''['' @ join '', '' (map (\<lambda>s. ''\"'' @ s @ ''\"'') xs) @ '']'')\<rparr>"

text \<open>
  The module of the specification's example:
  \<^verbatim>\<open>class Greeter\<close> with \<^verbatim>\<open>def __init__(self, name: str = "World")\<close> and
  \<^verbatim>\<open>def greet(self)\<close>, whose docstring is \<^verbatim>\<open>"Say hello."\<close>.
\<close>

definition init_args :: "expr arguments" where
  "init_args =
     \<lparr>posonlyargs = [], args = [\<lparr>arg = ''self'', annotation = None\<rparr>,
              \<lparr>arg = ''name'', annotation = Some (Name ''str'')\<rparr>],
      vararg = None, kwonlyargs = [], kw_defaults = [], kwarg = None,
      defaults = [Constant ''World'']\<rparr>"

definition self_args :: "'e arguments" where
  "self_args =
     \<lparr>posonlyargs = [], args = [\<lparr>arg = ''self'', annotation = None\<rparr>],
      vararg = None, kwonlyargs = [], kw_defaults = [], kwarg = None, defaults = []\<rparr>"

definition greet_def :: "expr node" where
  "greet_def = FunctionDef ''greet'' self_args [Other ''Expr()'' []] [] (Some ''Say hello.'')"

definition greeter_module :: "expr node list" where
  "greeter_module =
     [ClassDef ''Greeter'' []
        [FunctionDef ''__init__'' init_args [Other ''Assign()'' []] [] None, greet_def]
        [] None]"

definition cfg0 :: config where
  "cfg0 =
     \<lparr>module_path = ''greeter.py'', output_file = ''greeter-help.md'', overwrite = True,
      args_seperatly = False, exclusion_list = []\<rparr>"

text \<open>Before the first run: no checksum file, no help file, nothing printed.\<close>

definition w0 :: world where
  "w0 = \<lparr>checksums_on_disk = None, help_on_disk = None, printed = []\<rparr>"

text \<open>A module of one top-level function and no class: \<^verbatim>\<open>def f(): pass\<close>.\<close>

definition no_args :: "'e arguments" where
  "no_args =
     \<lparr>posonlyargs = [], args = [], vararg = None, kwonlyargs = [], kw_defaults = [], kwarg = None,
      defaults = []\<rparr>"

definition function_module :: "expr node list" where
  "function_module = [FunctionDef ''f'' no_args [Other ''Pass()'' []] [] None]"

text \<open>
  Two classes that each define a method \<^verbatim>\<open>greet\<close>, the second with the docstring
  \<^verbatim>\<open>"Say hello."\<close>.
\<close>

definition two_greeters_module :: "expr node list" where
  "two_greeters_module =
     [ClassDef ''A'' [] [FunctionDef ''greet'' self_args [Other ''Pass()'' []] [] None] [] None,
      ClassDef ''B'' [] [greet_def] [] None]"





text \<open>
  A later run of the Greeter module: its checksums are persisted and a help file exists.
\<close>

definition w_later :: world where
  "w_later =
     \<lparr>checksums_on_disk = Some (collect_checksums lib0 greeter_module),
      help_on_disk = Some ''# help'', printed = []\<rparr>"












section \<open>Change detection: properties\<close>

lemma record_checksum_distinct:
  "distinct (map fst d) \<Longrightarrow> distinct (map fst (record_checksum lib n d))"
  by (simp add: record_checksum_def distinct_update split: option.splits)

lemma fold_record_checksum_distinct:
  "distinct (map fst d) \<Longrightarrow> distinct (map fst (fold (record_checksum lib) ns d))"
  by (induction ns arbitrary: d) (simp_all add: record_checksum_distinct)

lemma collect_checksums_distinct: "distinct (map fst (collect_checksums lib tree_body))"
  by (simp add: collect_checksums_def fold_record_checksum_distinct)

lemma hash_mismatch_iff:
  "hash_mismatch cur prev \<longleftrightarrow> (\<exists>k c. (k, c) \<in> set cur \<and> map_of prev k \<noteq> Some c)"
  by (induction cur prev rule: hash_mismatch.induct) auto

lemma needs_update_iff:
  assumes "distinct (map fst cur)"
  shows "needs_update cur prev \<longleftrightarrow>
     set (map fst cur) \<noteq> set (map fst prev) \<or>
     (\<exists>k. k \<in> set (map fst cur) \<and> k \<in> set (map fst prev) \<and> map_of cur k \<noteq> map_of prev k)"
proof (cases "set (map fst cur) = set (map fst prev)")
  case False
  then show ?thesis by (simp add: needs_update_def)
next
  case True
  have "hash_mismatch cur prev \<longleftrightarrow>
     (\<exists>k. k \<in> set (map fst cur) \<and> k \<in> set (map fst prev) \<and> map_of cur k \<noteq> map_of prev k)"
  proof
    assume "hash_mismatch cur prev"
    then obtain k c where kc: "(k, c) \<in> set cur" "map_of prev k \<noteq> Some c"
      by (auto simp: hash_mismatch_iff)
    from kc(1) assms have "map_of cur k = Some c" by simp
    moreover from kc(1) have "k \<in> set (map fst cur)" by force
    ultimately show
      "\<exists>k. k \<in> set (map fst cur) \<and> k \<in> set (map fst prev) \<and> map_of cur k \<noteq> map_of prev k"
      using kc(2) True by metis
  next
    assume "\<exists>k. k \<in> set (map fst cur) \<and> k \<in> set (map fst prev) \<and> map_of cur k \<noteq> map_of prev k"
    then obtain k where k: "k \<in> set (map fst cur)" "map_of cur k \<noteq> map_of prev k" by blast
    from k(1) obtain c where c: "(k, c) \<in> set cur" by auto
    with assms have "map_of cur k = Some c" by simp
    with k(2) have "map_of prev k \<noteq> Some c" by metis
    with c show "hash_mismatch cur prev" unfolding hash_mismatch_iff by blast
  qed
  with True show ?thesis by (simp add: needs_update_def)
qed

lemma needs_update_same: "distinct (map fst cur) \<Longrightarrow> \<not> needs_update cur cur"
  by (simp add: needs_update_iff)

text \<open>
  C1. On every run that parses the module, \<^verbatim>\<open>needs_update\<close> is set exactly when the set of
  the freshly computed keys differs from the set of the persisted keys, or some key of
  both has different hashes. A key of both with the same hash gives no signal.
\<close>

theorem needs_regeneration_iff:
  "needs_update (collect_checksums lib tree_body) (load_checksums w) \<longleftrightarrow>
     set (map fst (collect_checksums lib tree_body)) \<noteq> set (map fst (load_checksums w)) \<or>
     (\<exists>k. k \<in> set (map fst (collect_checksums lib tree_body)) \<and>
          k \<in> set (map fst (load_checksums w)) \<and>
          map_of (collect_checksums lib tree_body) k \<noteq> map_of (load_checksums w) k)"
  by (rule needs_update_iff) (rule collect_checksums_distinct)

text \<open>
  The Greeter module on its first run, with nothing persisted, and with its own
  checksums persisted.
\<close>

theorem needs_regeneration_iff_witness:
  "needs_update (collect_checksums lib0 greeter_module) (load_checksums w0) \<and>
   \<not> needs_update (collect_checksums lib0 greeter_module)
       (load_checksums (w0\<lparr>checksums_on_disk := Some (collect_checksums lib0 greeter_module)\<rparr>))"
  using needs_regeneration_iff [of lib0 greeter_module w0]
    needs_regeneration_iff [of lib0 greeter_module
      "w0\<lparr>checksums_on_disk := Some (collect_checksums lib0 greeter_module)\<rparr>"]
  by (simp add: collect_checksums_def greeter_module_def greet_def_def record_checksum_def
      load_checksums_def w0_def)

section \<open>The keys of the fingerprint record\<close>

lemma render_body_classes_only:
  "function_names tree_body = [] \<Longrightarrow> \<exists>hc. render_body lib cfg tree_body cn acc = Inr hc"
  by (induction lib cfg tree_body cn acc rule: render_body.induct) simp_all

lemma greeter_render: "\<exists>hc. render_body lib cfg greeter_module None [] = Inr hc"
  by (rule render_body_classes_only) (simp add: greeter_module_def greet_def_def)

lemma greeter_keys:
  "map fst (collect_checksums lib greeter_module) = [''class_Greeter'', ''__init__'', ''greet'']"
  by (simp add: collect_checksums_def greeter_module_def greet_def_def record_checksum_def)

lemma greeter_first_run:
  "checksums_on_disk (snd (generate_help_content lib cfg greeter_module w0)) =
     Some (collect_checksums lib greeter_module)"
proof -
  obtain hc where hc: "render_body lib cfg greeter_module None [] = Inr hc"
    using greeter_render by blast
  show ?thesis
    by (simp add: generate_help_content_def second_pass_def hc w0_def save_checksums_def Let_def)
qed

text \<open>
  C3 as stated fails: after the first run on the Greeter module the persisted record has
  the key \<^verbatim>\<open>__init__\<close> as well, so its keys are not the two keys \<^verbatim>\<open>class_Greeter\<close> and
  \<^verbatim>\<open>greet\<close>.
\<close>

theorem greeter_keys_counterexample:
  "map fst (the (checksums_on_disk (snd (generate_help_content lib0 cfg0 greeter_module w0)))) =
     [''class_Greeter'', ''__init__'', ''greet''] \<and>
   set (map fst (the (checksums_on_disk
          (snd (generate_help_content lib0 cfg0 greeter_module w0))))) \<noteq>
     {''class_Greeter'', ''greet''}"
proof -
  have k: "map fst (the (checksums_on_disk
             (snd (generate_help_content lib0 cfg0 greeter_module w0)))) =
           [''class_Greeter'', ''__init__'', ''greet'']"
    by (simp add: greeter_first_run greeter_keys)
  have "''__init__'' \<in> set [''class_Greeter'', ''__init__'', ''greet'']" by simp
  moreover have "''__init__'' \<notin> {''class_Greeter'', ''greet''}" by simp
  ultimately have
    "set [''class_Greeter'', ''__init__'', ''greet''] \<noteq> {''class_Greeter'', ''greet''}"
    by metis
  with k show ?thesis by (simp only:) simp
qed

text \<open>
  C3, amended. After the first run on the Greeter module (nothing on disk before), whatever
  the library and the configuration, the persisted record has exactly three keys, in this
  order: \<^verbatim>\<open>class_Greeter\<close>, \<^verbatim>\<open>__init__\<close> and \<^verbatim>\<open>greet\<close>.
\<close>

theorem greeter_persisted_keys:
  "\<exists>d. checksums_on_disk (snd (generate_help_content lib cfg greeter_module w0)) = Some d \<and>
       map fst d = [''class_Greeter'', ''__init__'', ''greet''] \<and> distinct (map fst d)"
  by (simp add: greeter_first_run greeter_keys)

theorem greeter_persisted_keys_witness:
  "\<exists>d. checksums_on_disk (snd (generate_help_content lib0 cfg0 greeter_module w0)) = Some d \<and>
       map fst d = [''class_Greeter'', ''__init__'', ''greet''] \<and> distinct (map fst d)"
  by (rule greeter_persisted_keys)

lemma class_prefix_neq: "name \<noteq> ''class_'' @ name"
proof
  assume "name = ''class_'' @ name"
  then have "length name = length (''class_'' @ name)" by (rule arg_cong)
  then show False by simp
qed

lemma map_of_record_checksum:
  "map_of (record_checksum lib n d) k =
     (if node_name n = Some k then Some (calculate_node_checksum lib n) else map_of d k)"
  by (auto simp: record_checksum_def update_conv' split: option.splits)

lemma find_append_case:
  "find P (xs @ ys) = (case find P xs of None \<Rightarrow> find P ys | Some x \<Rightarrow> Some x)"
  by (induction xs) simp_all

lemma map_of_fold_record_checksum:
  "map_of (fold (record_checksum lib) ns d) k =
     (case find (\<lambda>n. node_name n = Some k) (rev ns) of
        Some n \<Rightarrow> Some (calculate_node_checksum lib n)
      | None \<Rightarrow> map_of d k)"
proof (induction ns arbitrary: d)
  case Nil
  then show ?case by simp
next
  case (Cons n ns)
  show ?case
    by (simp add: Cons.IH find_append_case map_of_record_checksum split: option.splits)
qed

lemma map_of_collect_checksums:
  "map_of (collect_checksums lib tree_body) k =
     map_option (calculate_node_checksum lib)
       (find (\<lambda>n. node_name n = Some k) (rev (walk tree_body)))"
  by (simp add: collect_checksums_def map_of_fold_record_checksum split: option.splits)

lemma two_greeters_keys:
  "map fst (collect_checksums lib two_greeters_module) = [''class_A'', ''class_B'', ''greet'']"
  by (simp add: greet_def_def collect_checksums_def two_greeters_module_def record_checksum_def)

lemma two_greeters_find:
  "find (\<lambda>n. node_name n = Some ''greet'') (rev (walk two_greeters_module)) = Some greet_def"
  by (simp add: greet_def_def two_greeters_module_def)

lemma greet_checksums_differ:
  "calculate_node_checksum lib0 (FunctionDef ''greet'' self_args [Other ''Pass()'' []] [] None) \<noteq>
   calculate_node_checksum lib0 greet_def"
  by (simp add: greet_def_def lib0_def docstring_or_empty_def)

text \<open>
  C4 as stated fails: the methods \<^verbatim>\<open>greet\<close> of the classes \<^verbatim>\<open>A\<close> and \<^verbatim>\<open>B\<close> are two
  declarations with one key, \<^verbatim>\<open>greet\<close>; the record has three entries for the four
  declarations, and the entry \<^verbatim>\<open>greet\<close> holds the checksum of the method of \<^verbatim>\<open>B\<close>. The
  texts that are hashed for the two methods differ (the digest of \<open>lib0\<close> is the identity).
\<close>

theorem same_named_methods_counterexample:
  "FunctionDef ''greet'' self_args [Other ''Pass()'' []] [] None \<noteq> greet_def \<and>
   node_name (FunctionDef ''greet'' self_args [Other ''Pass()'' []] [] None :: expr node) =
     node_name greet_def \<and>
   map fst (collect_checksums lib0 two_greeters_module) = [''class_A'', ''class_B'', ''greet''] \<and>
   map_of (collect_checksums lib0 two_greeters_module) ''greet'' =
     Some (calculate_node_checksum lib0 greet_def) \<and>
   calculate_node_checksum lib0 (FunctionDef ''greet'' self_args [Other ''Pass()'' []] [] None) \<noteq>
     calculate_node_checksum lib0 greet_def"
  using greet_checksums_differ
  by (simp add: two_greeters_keys map_of_collect_checksums two_greeters_find)
     (simp add: greet_def_def)

text \<open>
  C4, amended. The key is the bare name of a function and \<^verbatim>\<open>class_\<close> followed by the name
  of a class. So a function and a class of the same name have different keys; two
  functions share a key exactly when they have the same name, wherever they are defined
  (two methods of different classes too); two classes share a key exactly when they have
  the same name; a function and a class share a key exactly when the function is named
  \<^verbatim>\<open>class_\<close> followed by the class's name. The entry of a key holds the checksum of the last
  node with that key in the order of the walk.
\<close>

theorem fingerprint_keys_by_name:
  "(node_name (FunctionDef f a body decs doc) = node_name (FunctionDef g a' body' decs' doc'))
     = (f = g) \<and>
   (node_name (ClassDef c bases body decs doc) = node_name (ClassDef c' bases' body' decs' doc'))
     = (c = c') \<and>
   (node_name (FunctionDef f a body decs doc) = node_name (ClassDef c bases body' decs' doc'))
     = (f = ''class_'' @ c) \<and>
   node_name (FunctionDef f a body decs doc) \<noteq> node_name (ClassDef f bases body' decs' doc') \<and>
   map_of (collect_checksums lib tree_body) k =
     map_option (calculate_node_checksum lib)
       (find (\<lambda>n. node_name n = Some k) (rev (walk tree_body)))"
  using class_prefix_neq [of f] by (simp add: map_of_collect_checksums)

theorem fingerprint_keys_by_name_witness:
  "node_name (FunctionDef ''X'' no_args [] [] None :: expr node) \<noteq>
     node_name (ClassDef ''X'' [] [] [] None) \<and>
   node_name (FunctionDef ''class_X'' no_args [] [] None :: expr node) =
     node_name (ClassDef ''X'' [] [] [] None) \<and>
   map_of (collect_checksums lib0 two_greeters_module) ''greet'' =
     Some (calculate_node_checksum lib0 greet_def)"
  using fingerprint_keys_by_name [where f = "''X''" and c = "''X''" and lib = lib0
      and tree_body = two_greeters_module and k = "''greet''" and a = no_args]
    fingerprint_keys_by_name [where f = "''class_X''" and c = "''X''" and lib = lib0
      and tree_body = two_greeters_module and k = "''greet''" and a = no_args]
  by (simp add: two_greeters_find)

section \<open>The unbound receiver class of a top-level function\<close>

lemma render_body_unbound:
  "class_names pre = [] \<Longrightarrow> name \<notin> set (exclusion_list cfg) \<Longrightarrow>
   render_body lib cfg (pre @ FunctionDef name a body decs doc # post) None hc =
     Inl (UnboundLocalError ''class_name'')"
proof (induction pre arbitrary: hc)
  case Nil
  then show ?case by simp
next
  case (Cons n pre)
  then show ?case by (cases n) simp_all
qed

lemma generate_help_content_unbound:
  assumes "class_names pre = []" and "name \<notin> set (exclusion_list cfg)"
    and "needs_update (collect_checksums lib (pre @ FunctionDef name a body decs doc # post))
           (load_checksums w) \<or> help_on_disk w = None"
  shows "generate_help_content lib cfg (pre @ FunctionDef name a body decs doc # post) w =
           (Inl (UnboundLocalError ''class_name''), w)"
  using assms(3)
  by (auto simp: generate_help_content_def second_pass_def
      render_body_unbound [OF assms(1,2)] Let_def)

lemma generate_help_file_unbound:
  assumes "class_names pre = []" and "name \<notin> set (exclusion_list cfg)"
    and "needs_update (collect_checksums lib (pre @ FunctionDef name a body decs doc # post))
           (load_checksums w) \<or> help_on_disk w = None"
    and "overwrite cfg \<or> help_on_disk w = None"
  shows "generate_help_file lib cfg (pre @ FunctionDef name a body decs doc # post) w =
           (Some (UnboundLocalError ''class_name''), w)"
  using assms(4)
  by (simp add: generate_help_file_def generate_help_content_unbound [OF assms(1,2,3)])

text \<open>
  C10. When the top-level declarations hold a function that is not excluded and that no
  class precedes, and the second pass runs (an update is needed, or no help file exists),
  \<^verbatim>\<open>_generate_help_content\<close> raises \<^verbatim>\<open>UnboundLocalError\<close> for \<^verbatim>\<open>class_name\<close> and returns no
  document; nothing is written, and \<^verbatim>\<open>generate_help_file\<close> passes the error on.
\<close>

theorem unbound_class_name_aborts:
  assumes "class_names pre = []" and "name \<notin> set (exclusion_list cfg)"
    and "needs_update (collect_checksums lib (pre @ FunctionDef name a body decs doc # post))
           (load_checksums w) \<or> help_on_disk w = None"
  shows "generate_help_content lib cfg (pre @ FunctionDef name a body decs doc # post) w =
           (Inl (UnboundLocalError ''class_name''), w) \<and>
         (overwrite cfg \<or> help_on_disk w = None \<longrightarrow>
            generate_help_file lib cfg (pre @ FunctionDef name a body decs doc # post) w =
              (Some (UnboundLocalError ''class_name''), w))"
  using generate_help_content_unbound [OF assms] generate_help_file_unbound [OF assms] by simp

theorem unbound_class_name_aborts_witness:
  "class_names ([] :: expr node list) = [] \<and> ''f'' \<notin> set (exclusion_list cfg0) \<and>
   help_on_disk w0 = None \<and> overwrite cfg0 \<and>
   generate_help_content lib0 cfg0 function_module w0 =
     (Inl (UnboundLocalError ''class_name''), w0) \<and>
   generate_help_file lib0 cfg0 function_module w0 = (Some (UnboundLocalError ''class_name''), w0)"
  using unbound_class_name_aborts
    [of "[]" "''f''" cfg0 lib0 no_args "[Other ''Pass()'' []]" "[]" None "[]" w0]
  by (simp add: function_module_def cfg0_def w0_def)

section \<open>Persisting the record\<close>

lemma checksums_persisted_unless_abort:
  assumes "fst (generate_help_content lib cfg tree_body w) = Inr document"
  shows "checksums_on_disk (snd (generate_help_content lib cfg tree_body w)) =
           Some (collect_checksums lib tree_body)"
  using assms
  by (auto simp: generate_help_content_def Let_def save_checksums_def print_def
      split: if_splits sum.splits)

text \<open>
  C5, at the module \<^verbatim>\<open>def f(): pass\<close> on its first run: the module is parsed, an update is
  needed, the second pass raises, and no checksum file is written.
\<close>

theorem checksums_not_persisted_on_abort:
  "generate_help_file lib cfg0 function_module w0 = (Some (UnboundLocalError ''class_name''), w0) \<and>
   checksums_on_disk (snd (generate_help_file lib cfg0 function_module w0)) = None"
  using generate_help_file_unbound
    [of "[]" "''f''" cfg0 lib no_args "[Other ''Pass()'' []]" "[]" None "[]" w0]
  by (simp add: function_module_def cfg0_def w0_def)

section \<open>Skipping the second pass\<close>

text \<open>
  C6. The early return is taken, and its line printed, exactly when no update is needed
  and the help file exists; it returns the empty document. In every other case the result
  is the second pass's and nothing is printed; in particular when no help file exists,
  whatever the comparison of the checksums gave.
\<close>

theorem renderer_skipped_iff:
  "(printed (snd (generate_help_content lib cfg tree_body w)) = printed w @ [no_changes_line cfg])
     = (\<not> needs_update (collect_checksums lib tree_body) (load_checksums w) \<and>
        help_on_disk w \<noteq> None) \<and>
   (\<not> needs_update (collect_checksums lib tree_body) (load_checksums w) \<and>
    help_on_disk w \<noteq> None \<longrightarrow>
      fst (generate_help_content lib cfg tree_body w) = Inr '''') \<and>
   (\<not> (\<not> needs_update (collect_checksums lib tree_body) (load_checksums w) \<and>
       help_on_disk w \<noteq> None) \<longrightarrow>
      fst (generate_help_content lib cfg tree_body w) = second_pass lib cfg tree_body \<and>
      printed (snd (generate_help_content lib cfg tree_body w)) = printed w) \<and>
   (help_on_disk w = None \<longrightarrow>
      fst (generate_help_content lib cfg tree_body w) = second_pass lib cfg tree_body)"
  by (auto simp: generate_help_content_def Let_def save_checksums_def print_def
      split: sum.splits)

lemma w_later_no_update:
  "\<not> needs_update (collect_checksums lib0 greeter_module) (load_checksums w_later)"
  by (simp add: w_later_def load_checksums_def needs_update_same collect_checksums_distinct)

theorem renderer_skipped_iff_witness:
  "help_on_disk w0 = None \<and>
   fst (generate_help_content lib0 cfg0 greeter_module w0) = second_pass lib0 cfg0 greeter_module \<and>
   printed (snd (generate_help_content lib0 cfg0 greeter_module w0)) = [] \<and>
   \<not> needs_update (collect_checksums lib0 greeter_module) (load_checksums w_later) \<and>
   help_on_disk w_later \<noteq> None \<and>
   fst (generate_help_content lib0 cfg0 greeter_module w_later) = Inr '''' \<and>
   printed (snd (generate_help_content lib0 cfg0 greeter_module w_later)) =
     [no_changes_line cfg0]"
  using renderer_skipped_iff [of lib0 cfg0 greeter_module w0]
    renderer_skipped_iff [of lib0 cfg0 greeter_module w_later] w_later_no_update
  by (simp add: w0_def) (simp add: w_later_def)

section \<open>Two runs in succession\<close>

lemma generate_help_content_cases:
  "generate_help_content lib cfg tree_body w = (r, w1) \<Longrightarrow>
     (r = Inr '''' \<and>
      w1 = save_checksums (collect_checksums lib tree_body) (print (no_changes_line cfg) w) \<and>
      \<not> needs_update (collect_checksums lib tree_body) (load_checksums w) \<and>
      help_on_disk w \<noteq> None) \<or>
     (r = second_pass lib cfg tree_body \<and>
      (needs_update (collect_checksums lib tree_body) (load_checksums w) \<or>
       help_on_disk w = None) \<and>
      (case r of
         Inl e \<Rightarrow> w1 = w
       | Inr d \<Rightarrow> w1 = save_checksums (collect_checksums lib tree_body) w))"
  by (auto simp: generate_help_content_def Let_def split: sum.splits if_splits)

text \<open>
  When the first of two runs raises no error, the second finds no update needed and
  leaves the persisted record as the first wrote it.
\<close>

lemma second_run_no_update_unless_abort:
  assumes run: "generate_help_file lib cfg tree_body w = (None, w')" and ow: "overwrite cfg"
  shows "\<not> needs_update (collect_checksums lib tree_body) (load_checksums w') \<and>
         (\<exists>w''. generate_help_file lib cfg tree_body w' = (None, w'') \<and>
                 checksums_on_disk w'' = checksums_on_disk w')"
proof -
  let ?cur = "collect_checksums lib tree_body"
  obtain r w1 where g: "generate_help_content lib cfg tree_body w = (r, w1)"
    by (cases "generate_help_content lib cfg tree_body w")
  from run ow g obtain content where r: "r = Inr content"
    and w': "w' = (if content \<noteq> []
                   then print (''Help file generated/updated: '' @ output_file cfg)
                          (update_help_file_incrementally content w1)
                   else w1)"
    by (cases r) (auto simp: generate_help_file_def split: if_splits)
  from generate_help_content_cases [OF g] r
  have w1: "checksums_on_disk w1 = Some ?cur"
    and hlp: "help_on_disk w1 = None \<longrightarrow> second_pass lib cfg tree_body = Inr content"
    by (auto simp: save_checksums_def print_def)
  from w' w1 have cw': "checksums_on_disk w' = Some ?cur"
    by (simp add: print_def update_help_file_incrementally_def)
  then have ld: "load_checksums w' = ?cur" by (simp add: load_checksums_def)
  have nn: "\<not> needs_update ?cur (load_checksums w')"
    by (simp add: ld needs_update_same collect_checksums_distinct)
  have hlp': "help_on_disk w' = None \<longrightarrow> second_pass lib cfg tree_body = Inr []"
    using w' hlp by (auto simp: print_def update_help_file_incrementally_def split: if_splits)
  have "\<exists>w''. generate_help_file lib cfg tree_body w' = (None, w'') \<and>
                 checksums_on_disk w'' = Some ?cur"
    using nn ow hlp'
    by (cases "help_on_disk w'")
       (auto simp: generate_help_file_def generate_help_content_def Let_def save_checksums_def
          print_def update_help_file_incrementally_def)
  with nn cw' show ?thesis by simp
qed

lemma function_module_needs_update:
  "needs_update (collect_checksums lib function_module) (load_checksums w0)"
  by (simp add: needs_update_def collect_checksums_def function_module_def record_checksum_def
      load_checksums_def w0_def)

text \<open>
  C7, at the module \<^verbatim>\<open>def f(): pass\<close>: the first run raises and leaves the disk as it was,
  so the second run on the unchanged module needs an update again, and raises again.
\<close>

theorem second_run_still_needs_regeneration:
  "snd (generate_help_file lib cfg0 function_module w0) = w0 \<and>
   needs_update (collect_checksums lib function_module)
     (load_checksums (snd (generate_help_file lib cfg0 function_module w0))) \<and>
   generate_help_file lib cfg0 function_module
       (snd (generate_help_file lib cfg0 function_module w0)) =
     (Some (UnboundLocalError ''class_name''), w0)"
  using generate_help_file_unbound
      [of "[]" "''f''" cfg0 lib no_args "[Other ''Pass()'' []]" "[]" None "[]" w0]
    function_module_needs_update [of lib]
  by (simp add: function_module_def cfg0_def w0_def)

section \<open>Usage examples\<close>























section \<open>The table of contents\<close>



lemma length_lower [simp]: "length (lower s) = length s"
  by (simp add: lower_def)





















section \<open>The signature string\<close>


lemma join_Cons: "join sep (x # xs) = x @ (if xs = [] then [] else sep @ join sep xs)"
  by (cases xs) simp_all

lemma join_append:
  "xs \<noteq> [] \<Longrightarrow> ys \<noteq> [] \<Longrightarrow> join sep (xs @ ys) = join sep xs @ sep @ join sep ys"
  by (induction xs) (simp_all add: join_Cons)

lemma join_join: "xs \<noteq> [] \<Longrightarrow> join sep (join sep xs # rest) = join sep (xs @ rest)"
  by (cases "rest = []") (simp_all add: join_Cons join_append)







lemma kwarg_tokens_cases:
  "kwarg_tokens a = [] \<or> (\<exists>w. kwarg_tokens a = [''**'' @ w])"
  by (simp add: kwarg_tokens_def split: option.splits)







































end
